theory Spec2Isabelle
  imports Main
begin

section \<open>ClipboardManager: browser clipboard events against the internal clipboard\<close>

text \<open>
  A shallow embedding of \<^verbatim>\<open>src/dist/clipboardmanager.js\<close>. The class
  \<^verbatim>\<open>ClipboardManager\<close> holds a selection manager and a clipboard store and has
  three event handlers, \<^verbatim>\<open>OnCopy\<close>, \<^verbatim>\<open>OnCut\<close> and \<^verbatim>\<open>OnPaste\<close>, and the hook
  \<^verbatim>\<open>OnClipboardChange\<close>.
\<close>

subsection \<open>Values, events and errors\<close>

text \<open>
  A JavaScript value that the code compares with \<^verbatim>\<open>=== null\<close> is an option:
  \<open>None\<close> is \<^verbatim>\<open>null\<close>, and \<open>Some v\<close> is any other value.
\<close>

type_synonym 'd nullable = "'d option"

text \<open>
  The fields of a clipboard event that the handlers read: \<^verbatim>\<open>event.type\<close>,
  \<^verbatim>\<open>event.isTrusted\<close> and \<^verbatim>\<open>event.clipboardData\<close> (the handle of the external
  buffer).
\<close>

record 'd event =
  type :: string
  isTrusted :: bool
  clipboardData :: "'d nullable"

text \<open>
  The module \<^verbatim>\<open>clipboarddict.js\<close> is imported by the source and is not part of it: the
  three constants \<^verbatim>\<open>ClipboardDict.Copy\<close>, \<^verbatim>\<open>ClipboardDict.Cut\<close> and
  \<^verbatim>\<open>ClipboardDict.Paste\<close> are parameters of the model.
\<close>

record ClipboardDict =
  Copy :: string
  Cut :: string
  Paste :: string

text \<open>
  \<^verbatim>\<open>throw new Error(msg)\<close>: an error is its message. The two kinds of error of the
  specification are the two messages of the source.
\<close>

datatype error = Error string

definition ProtocolMismatch :: "string \<Rightarrow> string \<Rightarrow> error" where
  "ProtocolMismatch kind handler = Error (''Cannot perform '' @ kind @ '' action on '' @ handler)"

definition UntrustedEvent :: error where
  "UntrustedEvent = Error ''All external clipboard events must be trusted.''"

subsection \<open>State and collaborators\<close>

text \<open>
  The heap that the manager shares with its collaborators: the field
  \<^verbatim>\<open>clipboardStore.Data\<close> (the internal clipboard cell) and, in \<open>world\<close>, everything
  the collaborators own (the selection, the state of the targets, the contents of the
  external buffer).
\<close>

record ('d, 'w) heap =
  Data :: "'d nullable"
  world :: 'w

text \<open>
  The objects returned by the selection manager. Each operation receives its argument
  and may change the heap, the internal clipboard cell included; it cannot reach the
  event itself. An operation returns (\<open>Inr ()\<close>) or throws (\<open>Inl e\<close>), and leaves
  the heap it has reached. The handlers have no \<^verbatim>\<open>try\<close>: an error thrown by an
  operation leaves the handler that called it.
\<close>

type_synonym ('d, 'w) operation = "'d nullable \<Rightarrow> ('d, 'w) heap \<Rightarrow> (error + unit) \<times> ('d, 'w) heap"

record ('d, 'w) copyable =
  HandleCopy :: "('d, 'w) operation"

record ('d, 'w) cuttable =
  HandleCut :: "('d, 'w) operation"

record ('d, 'w) pasteContainer =
  HandlePaste :: "('d, 'w) operation"

text \<open>
  The selection manager: three queries, which read the current heap and leave it as it
  is; \<open>None\<close> is \<^verbatim>\<open>null\<close>.
\<close>

record ('d, 'w) selectionManager =
  FindActiveCopyable :: "('d, 'w) heap \<Rightarrow> ('d, 'w) copyable option"
  FindActiveCuttable :: "('d, 'w) heap \<Rightarrow> ('d, 'w) cuttable option"
  FindActivePasteContainer :: "('d, 'w) heap \<Rightarrow> ('d, 'w) pasteContainer option"

text \<open>
  What a handler does to its environment, in order: the calls on a target, with the
  argument passed, and \<^verbatim>\<open>event.preventDefault()\<close>.
\<close>

datatype 'd call =
  CallHandleCopy "'d nullable"
| CallHandleCut "'d nullable"
| CallHandlePaste "'d nullable"
| CallPreventDefault

text \<open>
  The state a handler runs in: the heap, the flag \<^verbatim>\<open>defaultPrevented\<close> of the event
  being dispatched, and the calls made so far.
\<close>

record ('d, 'w) state =
  heap :: "('d, 'w) heap"
  defaultPrevented :: bool
  calls :: "'d call list"

definition preventDefault :: "('d, 'w) state \<Rightarrow> ('d, 'w) state" where
  "preventDefault s = s\<lparr>defaultPrevented := True, calls := calls s @ [CallPreventDefault]\<rparr>"

text \<open>
  A handler, and a call on a target, returns \<open>Inl e\<close> when it throws \<open>e\<close> and
  \<open>Inr ()\<close> when it returns, together with the state it leaves.
\<close>

type_synonym ('d, 'w) outcome = "(error + unit) \<times> ('d, 'w) state"

definition delegate ::
  "'d call \<Rightarrow> (('d, 'w) heap \<Rightarrow> (error + unit) \<times> ('d, 'w) heap) \<Rightarrow> ('d, 'w) state \<Rightarrow> ('d, 'w) outcome" where
  "delegate c f s = (fst (f (heap s)), s\<lparr>heap := snd (f (heap s)), calls := calls s @ [c]\<rparr>)"

definition set_Data :: "'d nullable \<Rightarrow> ('d, 'w) state \<Rightarrow> ('d, 'w) state" where
  "set_Data v s = s\<lparr>heap := (heap s)\<lparr>Data := v\<rparr>\<rparr>"

subsection \<open>The handlers\<close>

definition OnClipboardChange :: "'d event \<Rightarrow> ('d, 'w) state \<Rightarrow> ('d, 'w) state" where
  "OnClipboardChange ev s = set_Data (clipboardData ev) s"

definition OnCopy ::
  "ClipboardDict \<Rightarrow> ('d, 'w) selectionManager \<Rightarrow> 'd event \<Rightarrow> ('d, 'w) state \<Rightarrow> ('d, 'w) outcome" where
  "OnCopy dict sm ev s =
     (if type ev \<noteq> Copy dict then
        (Inl (Error (''Cannot perform '' @ type ev @ '' action on copy'')), s)
      else if \<not> isTrusted ev then
        (Inl (Error ''All external clipboard events must be trusted.''), s)
      else
        (case FindActiveCopyable sm (heap s) of
           None \<Rightarrow> (Inr (), set_Data None s)
         | Some potentialCopy \<Rightarrow>
             (case delegate (CallHandleCopy (clipboardData ev))
                     (HandleCopy potentialCopy (clipboardData ev)) s of
                (Inl e, s1) \<Rightarrow> (Inl e, s1)
              | (Inr _, s1) \<Rightarrow> (Inr (), preventDefault s1))))"

definition OnCut ::
  "ClipboardDict \<Rightarrow> ('d, 'w) selectionManager \<Rightarrow> 'd event \<Rightarrow> ('d, 'w) state \<Rightarrow> ('d, 'w) outcome" where
  "OnCut dict sm ev s =
     (if type ev \<noteq> Cut dict then
        (Inl (Error (''Cannot perform '' @ type ev @ '' action on cut'')), s)
      else if \<not> isTrusted ev then
        (Inl (Error ''All external clipboard events must be trusted.''), s)
      else
        (case FindActiveCuttable sm (heap s) of
           None \<Rightarrow> (Inr (), set_Data None s)
         | Some potentialCut \<Rightarrow>
             delegate (CallHandleCut (clipboardData ev))
               (HandleCut potentialCut (clipboardData ev)) s))"

definition OnPaste ::
  "ClipboardDict \<Rightarrow> ('d, 'w) selectionManager \<Rightarrow> 'd event \<Rightarrow> ('d, 'w) state \<Rightarrow> ('d, 'w) outcome" where
  "OnPaste dict sm ev s =
     (if type ev \<noteq> Paste dict then
        (Inl (Error (''Cannot perform '' @ type ev @ '' action on paste'')), s)
      else if \<not> isTrusted ev then
        (Inl (Error ''All external clipboard events must be trusted.''), s)
      else
        (case FindActivePasteContainer sm (heap s) of
           None \<Rightarrow> (Inr (), s)
         | Some pasteContainer \<Rightarrow>
             (let (dataToUse, s1) =
                    (if Data (heap s) = None then (clipboardData ev, preventDefault s)
                     else (Data (heap s), s))
              in delegate (CallHandlePaste dataToUse)
                   (HandlePaste pasteContainer dataToUse) s1)))"

subsection \<open>A concrete configuration\<close>

text \<open>
  A dictionary with the event names of the browser, targets that record what they
  receive (the copyable and the cuttable write the internal clipboard cell, the paste
  container appends the pasted data to the world), a selection manager with all three
  targets focused and one with none, targets whose operation throws and the selection
  manager that has them focused, and a fresh state with a given cell.
\<close>

definition exampleDict :: ClipboardDict where
  "exampleDict = \<lparr>Copy = ''copy'', Cut = ''cut'', Paste = ''paste''\<rparr>"

definition exampleCopyable :: "(string, string nullable list) copyable" where
  "exampleCopyable = \<lparr>HandleCopy = (\<lambda>buffer h. (Inr (), h\<lparr>Data := Some ''X''\<rparr>))\<rparr>"

definition exampleCuttable :: "(string, string nullable list) cuttable" where
  "exampleCuttable = \<lparr>HandleCut = (\<lambda>buffer h. (Inr (), h\<lparr>Data := Some ''X''\<rparr>))\<rparr>"

definition examplePasteContainer :: "(string, string nullable list) pasteContainer" where
  "examplePasteContainer = \<lparr>HandlePaste = (\<lambda>d h. (Inr (), h\<lparr>world := world h @ [d]\<rparr>))\<rparr>"

definition focusedSelection :: "(string, string nullable list) selectionManager" where
  "focusedSelection =
     \<lparr>FindActiveCopyable = (\<lambda>h. Some exampleCopyable),
      FindActiveCuttable = (\<lambda>h. Some exampleCuttable),
      FindActivePasteContainer = (\<lambda>h. Some examplePasteContainer)\<rparr>"

definition noSelection :: "(string, string nullable list) selectionManager" where
  "noSelection =
     \<lparr>FindActiveCopyable = (\<lambda>h. None),
      FindActiveCuttable = (\<lambda>h. None),
      FindActivePasteContainer = (\<lambda>h. None)\<rparr>"

definition throwingCopyable :: "(string, string nullable list) copyable" where
  "throwingCopyable = \<lparr>HandleCopy = (\<lambda>buffer h. (Inl (Error ''target failed''), h))\<rparr>"

definition throwingCuttable :: "(string, string nullable list) cuttable" where
  "throwingCuttable = \<lparr>HandleCut = (\<lambda>buffer h. (Inl (Error ''target failed''), h))\<rparr>"

definition throwingPasteContainer :: "(string, string nullable list) pasteContainer" where
  "throwingPasteContainer = \<lparr>HandlePaste = (\<lambda>d h. (Inl (Error ''target failed''), h))\<rparr>"

definition throwingSelection :: "(string, string nullable list) selectionManager" where
  "throwingSelection =
     \<lparr>FindActiveCopyable = (\<lambda>h. Some throwingCopyable),
      FindActiveCuttable = (\<lambda>h. Some throwingCuttable),
      FindActivePasteContainer = (\<lambda>h. Some throwingPasteContainer)\<rparr>"

definition exampleState :: "string nullable \<Rightarrow> (string, string nullable list) state" where
  "exampleState cell = \<lparr>heap = \<lparr>Data = cell, world = []\<rparr>, defaultPrevented = False, calls = []\<rparr>"

lemmas example_defs = exampleDict_def exampleCopyable_def exampleCuttable_def
  examplePasteContainer_def focusedSelection_def noSelection_def exampleState_def
  throwingCopyable_def throwingCuttable_def throwingPasteContainer_def throwingSelection_def

section \<open>Properties\<close>

subsection \<open>The guards\<close>

text \<open>
  C2 (counterexample). An untrusted event is not always answered with \<open>UntrustedEvent\<close>: an untrusted
  event of type \<^verbatim>\<open>cut\<close> delivered to \<^verbatim>\<open>OnCopy\<close> fails the check of the type, which
  comes first, and the error thrown is \<open>ProtocolMismatch\<close>.
\<close>

theorem untrusted_event_not_always_UntrustedEvent:
  "OnCopy exampleDict noSelection
      \<lparr>type = ''cut'', isTrusted = False, clipboardData = None\<rparr> (exampleState None)
    = (Inl (ProtocolMismatch ''cut'' ''copy''), exampleState None)
   \<and> fst (OnCopy exampleDict noSelection
      \<lparr>type = ''cut'', isTrusted = False, clipboardData = None\<rparr> (exampleState None))
    \<noteq> Inl UntrustedEvent"
  by (simp add: OnCopy_def exampleDict_def ProtocolMismatch_def UntrustedEvent_def)

text \<open>
  C2 (amended). For every event whose trusted flag is false, each of the three handlers
  fails and leaves the state, the internal clipboard cell included, unchanged: with
  \<open>UntrustedEvent\<close> when the type of the event is the one the handler expects, and
  with \<open>ProtocolMismatch\<close> naming the type of the event otherwise.
\<close>

theorem untrusted_event_fails:
  assumes "\<not> isTrusted ev"
  shows "OnCopy dict sm ev s =
           (Inl (if type ev = Copy dict then UntrustedEvent
                 else ProtocolMismatch (type ev) ''copy''), s)
       \<and> OnCut dict sm ev s =
           (Inl (if type ev = Cut dict then UntrustedEvent
                 else ProtocolMismatch (type ev) ''cut''), s)
       \<and> OnPaste dict sm ev s =
           (Inl (if type ev = Paste dict then UntrustedEvent
                 else ProtocolMismatch (type ev) ''paste''), s)"
  using assms
  by (simp add: OnCopy_def OnCut_def OnPaste_def ProtocolMismatch_def UntrustedEvent_def)

theorem untrusted_event_fails_witness:
  "OnCopy exampleDict focusedSelection
      \<lparr>type = ''copy'', isTrusted = False, clipboardData = Some ''D''\<rparr> (exampleState (Some ''V''))
    = (Inl UntrustedEvent, exampleState (Some ''V''))
   \<and> OnCut exampleDict focusedSelection
      \<lparr>type = ''copy'', isTrusted = False, clipboardData = Some ''D''\<rparr> (exampleState (Some ''V''))
    = (Inl (ProtocolMismatch ''copy'' ''cut''), exampleState (Some ''V''))
   \<and> OnPaste exampleDict focusedSelection
      \<lparr>type = ''copy'', isTrusted = False, clipboardData = Some ''D''\<rparr> (exampleState (Some ''V''))
    = (Inl (ProtocolMismatch ''copy'' ''paste''), exampleState (Some ''V''))"
  using untrusted_event_fails [of "\<lparr>type = ''copy'', isTrusted = False, clipboardData = Some ''D''\<rparr>"
          exampleDict focusedSelection "exampleState (Some ''V'')"]
  by (simp add: exampleDict_def)

text \<open>
  C3. In every handler the type of the event is checked before its trusted flag: for an
  untrusted event whose type is not the one the handler expects, the handler throws
  \<open>ProtocolMismatch\<close>, which is not \<open>UntrustedEvent\<close>.
\<close>

theorem kind_check_before_trust_check:
  assumes "\<not> isTrusted ev"
  shows "(type ev \<noteq> Copy dict \<longrightarrow>
            fst (OnCopy dict sm ev s) = Inl (ProtocolMismatch (type ev) ''copy'')
          \<and> fst (OnCopy dict sm ev s) \<noteq> Inl UntrustedEvent)
       \<and> (type ev \<noteq> Cut dict \<longrightarrow>
            fst (OnCut dict sm ev s) = Inl (ProtocolMismatch (type ev) ''cut'')
          \<and> fst (OnCut dict sm ev s) \<noteq> Inl UntrustedEvent)
       \<and> (type ev \<noteq> Paste dict \<longrightarrow>
            fst (OnPaste dict sm ev s) = Inl (ProtocolMismatch (type ev) ''paste'')
          \<and> fst (OnPaste dict sm ev s) \<noteq> Inl UntrustedEvent)"
  by (simp add: OnCopy_def OnCut_def OnPaste_def ProtocolMismatch_def UntrustedEvent_def)

theorem kind_check_before_trust_check_witness:
  "fst (OnCopy exampleDict focusedSelection
      \<lparr>type = ''paste'', isTrusted = False, clipboardData = Some ''D''\<rparr> (exampleState None))
    = Inl (ProtocolMismatch ''paste'' ''copy'')
   \<and> fst (OnCut exampleDict focusedSelection
      \<lparr>type = ''paste'', isTrusted = False, clipboardData = Some ''D''\<rparr> (exampleState None))
    = Inl (ProtocolMismatch ''paste'' ''cut'')
   \<and> fst (OnPaste exampleDict focusedSelection
      \<lparr>type = ''cut'', isTrusted = False, clipboardData = Some ''D''\<rparr> (exampleState None))
    = Inl (ProtocolMismatch ''cut'' ''paste'')"
  using kind_check_before_trust_check [of "\<lparr>type = ''paste'', isTrusted = False, clipboardData = Some ''D''\<rparr>"
          exampleDict focusedSelection "exampleState None"]
        kind_check_before_trust_check [of "\<lparr>type = ''cut'', isTrusted = False, clipboardData = Some ''D''\<rparr>"
          exampleDict focusedSelection "exampleState None"]
  by (simp add: exampleDict_def)

text \<open>
  C4. For every event whose type is not the one the handler expects, the handler fails
  with \<open>ProtocolMismatch\<close>, whose message names the type of the event, and leaves the
  state, the internal clipboard cell included, unchanged.
\<close>

theorem kind_mismatch_fails:
  "(type ev \<noteq> Copy dict \<longrightarrow>
      OnCopy dict sm ev s = (Inl (ProtocolMismatch (type ev) ''copy''), s))
   \<and> (type ev \<noteq> Cut dict \<longrightarrow>
      OnCut dict sm ev s = (Inl (ProtocolMismatch (type ev) ''cut''), s))
   \<and> (type ev \<noteq> Paste dict \<longrightarrow>
      OnPaste dict sm ev s = (Inl (ProtocolMismatch (type ev) ''paste''), s))"
  by (simp add: OnCopy_def OnCut_def OnPaste_def ProtocolMismatch_def)

theorem kind_mismatch_fails_witness:
  "OnCopy exampleDict focusedSelection
      \<lparr>type = ''cut'', isTrusted = True, clipboardData = Some ''D''\<rparr> (exampleState (Some ''V''))
    = (Inl (Error ''Cannot perform cut action on copy''), exampleState (Some ''V''))
   \<and> OnCut exampleDict focusedSelection
      \<lparr>type = ''paste'', isTrusted = True, clipboardData = Some ''D''\<rparr> (exampleState (Some ''V''))
    = (Inl (Error ''Cannot perform paste action on cut''), exampleState (Some ''V''))
   \<and> OnPaste exampleDict focusedSelection
      \<lparr>type = ''cut'', isTrusted = True, clipboardData = Some ''D''\<rparr> (exampleState (Some ''V''))
    = (Inl (Error ''Cannot perform cut action on paste''), exampleState (Some ''V''))"
  using kind_mismatch_fails [of "\<lparr>type = ''cut'', isTrusted = True, clipboardData = Some ''D''\<rparr>"
          exampleDict focusedSelection "exampleState (Some ''V'')"]
        kind_mismatch_fails [of "\<lparr>type = ''paste'', isTrusted = True, clipboardData = Some ''D''\<rparr>"
          exampleDict focusedSelection "exampleState (Some ''V'')"]
  by (simp add: exampleDict_def ProtocolMismatch_def)

text \<open>
  C9 (counterexample). A handler can throw with the default already suppressed: with
  the internal clipboard cell \<^verbatim>\<open>null\<close>, \<^verbatim>\<open>OnPaste\<close> calls \<^verbatim>\<open>preventDefault\<close> before
  it calls \<^verbatim>\<open>HandlePaste\<close>, and the error of a paste container that throws leaves
  the handler after the flag has been set.
\<close>

theorem OnPaste_throws_after_suppression:
  "OnPaste exampleDict throwingSelection

      \<lparr>type = ''paste'', isTrusted = True, clipboardData = Some ''D''\<rparr> (exampleState None)
    = (Inl (Error ''target failed''),
       \<lparr>heap = \<lparr>Data = None, world = []\<rparr>, defaultPrevented = True,
        calls = [CallPreventDefault, CallHandlePaste (Some ''D'')]\<rparr>)
   \<and> \<not> defaultPrevented (exampleState None)
   \<and> defaultPrevented (snd (OnPaste exampleDict throwingSelection

      \<lparr>type = ''paste'', isTrusted = True, clipboardData = Some ''D''\<rparr> (exampleState None)))"
  by (simp add: OnPaste_def delegate_def preventDefault_def example_defs)

text \<open>
  C9 (amended). Whenever a handler throws, it has not suppressed the default, the one
  exception being an error thrown by \<^verbatim>\<open>HandlePaste\<close> of the paste container while the
  internal clipboard cell is \<^verbatim>\<open>null\<close>. The errors of the handlers themselves, for an
  event of another type or an untrusted one, come before anything else: the state is
  the one the handler was entered with. An error that leaves \<^verbatim>\<open>OnCopy\<close> or
  \<^verbatim>\<open>OnCut\<close>, or \<^verbatim>\<open>OnPaste\<close> with a cell that holds a value, leaves the flag
  \<^verbatim>\<open>defaultPrevented\<close> as it was, and the only call made is the one on the target.
\<close>

theorem error_before_suppression:
  "(fst (OnCopy dict sm ev s) = Inl e \<longrightarrow>
      defaultPrevented (snd (OnCopy dict sm ev s)) = defaultPrevented s
    \<and> (calls (snd (OnCopy dict sm ev s)) = calls s
       \<or> calls (snd (OnCopy dict sm ev s)) = calls s @ [CallHandleCopy (clipboardData ev)])
    \<and> (type ev \<noteq> Copy dict \<or> \<not> isTrusted ev \<longrightarrow> snd (OnCopy dict sm ev s) = s))
   \<and> (fst (OnCut dict sm ev s) = Inl e \<longrightarrow>
      defaultPrevented (snd (OnCut dict sm ev s)) = defaultPrevented s
    \<and> (calls (snd (OnCut dict sm ev s)) = calls s
       \<or> calls (snd (OnCut dict sm ev s)) = calls s @ [CallHandleCut (clipboardData ev)])
    \<and> (type ev \<noteq> Cut dict \<or> \<not> isTrusted ev \<longrightarrow> snd (OnCut dict sm ev s) = s))
   \<and> (fst (OnPaste dict sm ev s) = Inl e
        \<and> (type ev \<noteq> Paste dict \<or> \<not> isTrusted ev \<or> Data (heap s) \<noteq> None) \<longrightarrow>
      defaultPrevented (snd (OnPaste dict sm ev s)) = defaultPrevented s
    \<and> (calls (snd (OnPaste dict sm ev s)) = calls s
       \<or> calls (snd (OnPaste dict sm ev s)) = calls s @ [CallHandlePaste (Data (heap s))])
    \<and> (type ev \<noteq> Paste dict \<or> \<not> isTrusted ev \<longrightarrow> snd (OnPaste dict sm ev s) = s))"
  by (auto simp add: OnCopy_def OnCut_def OnPaste_def delegate_def preventDefault_def
      split: option.splits prod.splits sum.splits if_splits)

theorem error_before_suppression_witness:
  "fst (OnCopy exampleDict focusedSelection
      \<lparr>type = ''copy'', isTrusted = False, clipboardData = Some ''D''\<rparr> (exampleState None))
       = Inl UntrustedEvent
   \<and> snd (OnCopy exampleDict focusedSelection
      \<lparr>type = ''copy'', isTrusted = False, clipboardData = Some ''D''\<rparr> (exampleState None))
       = exampleState None
   \<and> fst (OnCopy exampleDict throwingSelection
      \<lparr>type = ''copy'', isTrusted = True, clipboardData = Some ''D''\<rparr> (exampleState None))
       = Inl (Error ''target failed'')
   \<and> \<not> defaultPrevented (snd (OnCopy exampleDict throwingSelection
      \<lparr>type = ''copy'', isTrusted = True, clipboardData = Some ''D''\<rparr> (exampleState None)))
   \<and> fst (OnCut exampleDict throwingSelection
      \<lparr>type = ''cut'', isTrusted = True, clipboardData = Some ''D''\<rparr> (exampleState None))
       = Inl (Error ''target failed'')
   \<and> \<not> defaultPrevented (snd (OnCut exampleDict throwingSelection
      \<lparr>type = ''cut'', isTrusted = True, clipboardData = Some ''D''\<rparr> (exampleState None)))
   \<and> fst (OnPaste exampleDict throwingSelection
      \<lparr>type = ''paste'', isTrusted = True, clipboardData = Some ''D''\<rparr> (exampleState (Some ''V'')))
       = Inl (Error ''target failed'')
   \<and> \<not> defaultPrevented (snd (OnPaste exampleDict throwingSelection
      \<lparr>type = ''paste'', isTrusted = True, clipboardData = Some ''D''\<rparr>
          (exampleState (Some ''V''))))
   \<and> fst (OnPaste exampleDict focusedSelection
      \<lparr>type = ''copy'', isTrusted = True, clipboardData = Some ''D''\<rparr> (exampleState None))
       = Inl (ProtocolMismatch ''copy'' ''paste'')
   \<and> snd (OnPaste exampleDict focusedSelection
      \<lparr>type = ''copy'', isTrusted = True, clipboardData = Some ''D''\<rparr> (exampleState None))
       = exampleState None"
proof -
  have cu: "fst (OnCopy exampleDict focusedSelection
      \<lparr>type = ''copy'', isTrusted = False, clipboardData = Some ''D''\<rparr> (exampleState None))
      = Inl UntrustedEvent"
    by (simp add: OnCopy_def exampleDict_def UntrustedEvent_def)
  have ct: "fst (OnCopy exampleDict throwingSelection
      \<lparr>type = ''copy'', isTrusted = True, clipboardData = Some ''D''\<rparr> (exampleState None))
      = Inl (Error ''target failed'')"
    by (simp add: OnCopy_def delegate_def example_defs)
  have xt: "fst (OnCut exampleDict throwingSelection
      \<lparr>type = ''cut'', isTrusted = True, clipboardData = Some ''D''\<rparr> (exampleState None))
      = Inl (Error ''target failed'')"
    by (simp add: OnCut_def delegate_def example_defs)
  have pt: "fst (OnPaste exampleDict throwingSelection
      \<lparr>type = ''paste'', isTrusted = True, clipboardData = Some ''D''\<rparr> (exampleState (Some ''V'')))
      = Inl (Error ''target failed'')"
    by (simp add: OnPaste_def delegate_def example_defs)
  have pm: "fst (OnPaste exampleDict focusedSelection
      \<lparr>type = ''copy'', isTrusted = True, clipboardData = Some ''D''\<rparr> (exampleState None))
      = Inl (ProtocolMismatch ''copy'' ''paste'')"
    by (simp add: OnPaste_def exampleDict_def ProtocolMismatch_def)
  have d: "\<not> defaultPrevented (exampleState None)"
    "\<not> defaultPrevented (exampleState (Some ''V''))"
    "Data (heap (exampleState (Some ''V''))) \<noteq> None"
    by (simp_all add: exampleState_def)
  have t:
    "type \<lparr>type = ''copy'', isTrusted = False, clipboardData = Some ''D''\<rparr> = Copy exampleDict"
    "\<not> isTrusted \<lparr>type = ''copy'', isTrusted = False, clipboardData = Some ''D''\<rparr>"
    "type \<lparr>type = ''copy'', isTrusted = True, clipboardData = Some ''D''\<rparr> \<noteq> Paste exampleDict"
    by (simp_all add: exampleDict_def)
  show ?thesis
    using cu ct xt pt pm d t
      error_before_suppression [of exampleDict focusedSelection
        "\<lparr>type = ''copy'', isTrusted = False, clipboardData = Some ''D''\<rparr>" "exampleState None"
        UntrustedEvent]
      error_before_suppression [of exampleDict throwingSelection
        "\<lparr>type = ''copy'', isTrusted = True, clipboardData = Some ''D''\<rparr>" "exampleState None"
        "Error ''target failed''"]
      error_before_suppression [of exampleDict throwingSelection
        "\<lparr>type = ''cut'', isTrusted = True, clipboardData = Some ''D''\<rparr>" "exampleState None"
        "Error ''target failed''"]
      error_before_suppression [of exampleDict throwingSelection
        "\<lparr>type = ''paste'', isTrusted = True, clipboardData = Some ''D''\<rparr>"
        "exampleState (Some ''V'')" "Error ''target failed''"]
      error_before_suppression [of exampleDict focusedSelection
        "\<lparr>type = ''copy'', isTrusted = True, clipboardData = Some ''D''\<rparr>" "exampleState None"
        "ProtocolMismatch ''copy'' ''paste''"]
    by simp
qed

subsection \<open>Copy and cut\<close>

text \<open>
  C5. For a trusted copy event with no active copyable, and for a trusted cut event
  with no active cuttable, the handler returns having set the internal clipboard cell
  to \<^verbatim>\<open>null\<close>, whatever it held, and nothing else: no call on a target, no
  \<^verbatim>\<open>preventDefault\<close>.
\<close>

theorem no_target_clears_cell:
  assumes "isTrusted ev"
  shows "(type ev = Copy dict \<and> FindActiveCopyable sm (heap s) = None \<longrightarrow>
            OnCopy dict sm ev s = (Inr (), s\<lparr>heap := (heap s)\<lparr>Data := None\<rparr>\<rparr>))
       \<and> (type ev = Cut dict \<and> FindActiveCuttable sm (heap s) = None \<longrightarrow>
            OnCut dict sm ev s = (Inr (), s\<lparr>heap := (heap s)\<lparr>Data := None\<rparr>\<rparr>))"
  using assms by (simp add: OnCopy_def OnCut_def set_Data_def)

theorem no_target_clears_cell_witness:
  "OnCopy exampleDict noSelection
      \<lparr>type = ''copy'', isTrusted = True, clipboardData = Some ''D''\<rparr> (exampleState (Some ''V''))
    = (Inr (), exampleState None)
   \<and> OnCut exampleDict noSelection
      \<lparr>type = ''cut'', isTrusted = True, clipboardData = Some ''D''\<rparr> (exampleState (Some ''V''))
    = (Inr (), exampleState None)"
  using no_target_clears_cell [of "\<lparr>type = ''copy'', isTrusted = True, clipboardData = Some ''D''\<rparr>"
          exampleDict noSelection "exampleState (Some ''V'')"]
        no_target_clears_cell [of "\<lparr>type = ''cut'', isTrusted = True, clipboardData = Some ''D''\<rparr>"
          exampleDict noSelection "exampleState (Some ''V'')"]
  by (simp add: exampleDict_def noSelection_def exampleState_def)

text \<open>
  C6 (counterexample). A trusted copy event with an active copyable does not always
  end with the default suppressed: when \<^verbatim>\<open>HandleCopy\<close> of the target throws,
  \<^verbatim>\<open>OnCopy\<close> has made the call, the error leaves the handler, and
  \<^verbatim>\<open>preventDefault\<close>, which comes after the call, is not reached.
\<close>

theorem OnCopy_throwing_target_not_suppressed:
  "FindActiveCopyable throwingSelection (heap (exampleState None)) = Some throwingCopyable
   \<and> OnCopy exampleDict throwingSelection
      \<lparr>type = ''copy'', isTrusted = True, clipboardData = Some ''D''\<rparr> (exampleState None)
    = (Inl (Error ''target failed''),
       \<lparr>heap = \<lparr>Data = None, world = []\<rparr>, defaultPrevented = False,
        calls = [CallHandleCopy (Some ''D'')]\<rparr>)
   \<and> \<not> defaultPrevented (snd (OnCopy exampleDict throwingSelection
      \<lparr>type = ''copy'', isTrusted = True, clipboardData = Some ''D''\<rparr> (exampleState None)))"
  by (simp add: OnCopy_def delegate_def example_defs)

text \<open>
  C6 (amended). For a trusted copy event with an active copyable, \<^verbatim>\<open>OnCopy\<close> calls the
  \<^verbatim>\<open>HandleCopy\<close> of that target with \<^verbatim>\<open>event.clipboardData\<close>; when the call returns,
  \<^verbatim>\<open>OnCopy\<close> then calls \<^verbatim>\<open>preventDefault\<close> and returns; when the call throws, the
  error leaves \<^verbatim>\<open>OnCopy\<close> and the default is not suppressed.
\<close>

theorem OnCopy_delegates_then_suppresses:
  assumes "type ev = Copy dict" and "isTrusted ev"
    and "FindActiveCopyable sm (heap s) = Some potentialCopy"
  shows "(\<forall>h'. HandleCopy potentialCopy (clipboardData ev) (heap s) = (Inr (), h') \<longrightarrow>
            OnCopy dict sm ev s =
              (Inr (), s\<lparr>heap := h', defaultPrevented := True,
                         calls := calls s @ [CallHandleCopy (clipboardData ev), CallPreventDefault]\<rparr>))
       \<and> (\<forall>e h'. HandleCopy potentialCopy (clipboardData ev) (heap s) = (Inl e, h') \<longrightarrow>
            OnCopy dict sm ev s =
              (Inl e, s\<lparr>heap := h',
                        calls := calls s @ [CallHandleCopy (clipboardData ev)]\<rparr>))"
  using assms by (simp add: OnCopy_def delegate_def preventDefault_def)

theorem OnCopy_delegates_then_suppresses_witness:
  "OnCopy exampleDict focusedSelection
      \<lparr>type = ''copy'', isTrusted = True, clipboardData = Some ''D''\<rparr> (exampleState None)
    = (Inr (), \<lparr>heap = \<lparr>Data = Some ''X'', world = []\<rparr>, defaultPrevented = True,
                calls = [CallHandleCopy (Some ''D''), CallPreventDefault]\<rparr>)
   \<and> OnCopy exampleDict throwingSelection
      \<lparr>type = ''copy'', isTrusted = True, clipboardData = Some ''D''\<rparr> (exampleState (Some ''V''))
    = (Inl (Error ''target failed''),
       \<lparr>heap = \<lparr>Data = Some ''V'', world = []\<rparr>, defaultPrevented = False,
        calls = [CallHandleCopy (Some ''D'')]\<rparr>)"
  using OnCopy_delegates_then_suppresses [of "\<lparr>type = ''copy'', isTrusted = True, clipboardData = Some ''D''\<rparr>"
          exampleDict focusedSelection "exampleState None" exampleCopyable]
        OnCopy_delegates_then_suppresses [of "\<lparr>type = ''copy'', isTrusted = True, clipboardData = Some ''D''\<rparr>"
          exampleDict throwingSelection "exampleState (Some ''V'')" throwingCopyable]
  by (simp add: example_defs)

text \<open>
  C7. For a trusted cut event with an active cuttable, \<^verbatim>\<open>OnCut\<close> calls the
  \<^verbatim>\<open>HandleCut\<close> of that target with \<^verbatim>\<open>event.clipboardData\<close> and does not call
  \<^verbatim>\<open>preventDefault\<close>: the flag is as it was, whether the target returns or throws,
  and the outcome of \<^verbatim>\<open>OnCut\<close> is the outcome of the call.
\<close>

theorem OnCut_delegates_without_suppressing:
  assumes "type ev = Cut dict" and "isTrusted ev"
    and "FindActiveCuttable sm (heap s) = Some potentialCut"
  shows "OnCut dict sm ev s =
           (fst (HandleCut potentialCut (clipboardData ev) (heap s)),
            s\<lparr>heap := snd (HandleCut potentialCut (clipboardData ev) (heap s)),
              calls := calls s @ [CallHandleCut (clipboardData ev)]\<rparr>)
       \<and> defaultPrevented (snd (OnCut dict sm ev s)) = defaultPrevented s"
  using assms by (simp add: OnCut_def delegate_def)

theorem OnCut_delegates_without_suppressing_witness:
  "OnCut exampleDict focusedSelection
      \<lparr>type = ''cut'', isTrusted = True, clipboardData = Some ''D''\<rparr> (exampleState None)
    = (Inr (), \<lparr>heap = \<lparr>Data = Some ''X'', world = []\<rparr>, defaultPrevented = False,
                calls = [CallHandleCut (Some ''D'')]\<rparr>)"
  using OnCut_delegates_without_suppressing [of "\<lparr>type = ''cut'', isTrusted = True, clipboardData = Some ''D''\<rparr>"
          exampleDict focusedSelection "exampleState None" exampleCuttable]
  by (simp add: example_defs)

subsection \<open>Paste\<close>

text \<open>
  C8. For a trusted paste event with no active paste container, \<^verbatim>\<open>OnPaste\<close>
  returns and the state is unchanged: no call on a target, no \<^verbatim>\<open>preventDefault\<close>,
  the same internal clipboard cell.
\<close>

theorem OnPaste_no_container_no_action:
  assumes "type ev = Paste dict" and "isTrusted ev"
    and "FindActivePasteContainer sm (heap s) = None"
  shows "OnPaste dict sm ev s = (Inr (), s)"
  using assms by (simp add: OnPaste_def)

theorem OnPaste_no_container_no_action_witness:
  "OnPaste exampleDict noSelection
      \<lparr>type = ''paste'', isTrusted = True, clipboardData = Some ''D''\<rparr> (exampleState (Some ''V''))
    = (Inr (), exampleState (Some ''V''))"
  using OnPaste_no_container_no_action [of "\<lparr>type = ''paste'', isTrusted = True, clipboardData = Some ''D''\<rparr>"
          exampleDict noSelection "exampleState (Some ''V'')"]
  by (simp add: exampleDict_def noSelection_def)

text \<open>
  C1. For a trusted paste event with an active paste container: when the internal
  clipboard cell is \<^verbatim>\<open>null\<close>, \<^verbatim>\<open>OnPaste\<close> calls \<^verbatim>\<open>preventDefault\<close> and passes
  \<^verbatim>\<open>event.clipboardData\<close> to the \<^verbatim>\<open>HandlePaste\<close> of the container; when the cell
  holds a value \<open>V\<close>, it passes \<open>V\<close>, whatever the external buffer holds, and
  does not call \<^verbatim>\<open>preventDefault\<close>. The outcome of \<^verbatim>\<open>OnPaste\<close> is the outcome of
  the call.
\<close>

theorem OnPaste_data_source:
  assumes "type ev = Paste dict" and "isTrusted ev"
    and "FindActivePasteContainer sm (heap s) = Some pc"
  shows "(Data (heap s) = None \<longrightarrow>
            OnPaste dict sm ev s =
              (fst (HandlePaste pc (clipboardData ev) (heap s)),
               s\<lparr>heap := snd (HandlePaste pc (clipboardData ev) (heap s)),
                 defaultPrevented := True,
                 calls := calls s @ [CallPreventDefault, CallHandlePaste (clipboardData ev)]\<rparr>))
       \<and> (\<forall>V. Data (heap s) = Some V \<longrightarrow>
            OnPaste dict sm ev s =
              (fst (HandlePaste pc (Some V) (heap s)),
               s\<lparr>heap := snd (HandlePaste pc (Some V) (heap s)),
                 calls := calls s @ [CallHandlePaste (Some V)]\<rparr>))"
  using assms by (simp add: OnPaste_def delegate_def preventDefault_def)

theorem OnPaste_data_source_witness:
  "OnPaste exampleDict focusedSelection
      \<lparr>type = ''paste'', isTrusted = True, clipboardData = Some ''D''\<rparr> (exampleState None)
    = (Inr (), \<lparr>heap = \<lparr>Data = None, world = [Some ''D'']\<rparr>, defaultPrevented = True,
                calls = [CallPreventDefault, CallHandlePaste (Some ''D'')]\<rparr>)
   \<and> OnPaste exampleDict focusedSelection
      \<lparr>type = ''paste'', isTrusted = True, clipboardData = Some ''D''\<rparr> (exampleState (Some ''V''))
    = (Inr (), \<lparr>heap = \<lparr>Data = Some ''V'', world = [Some ''V'']\<rparr>, defaultPrevented = False,
                calls = [CallHandlePaste (Some ''V'')]\<rparr>)"
  using OnPaste_data_source [of "\<lparr>type = ''paste'', isTrusted = True, clipboardData = Some ''D''\<rparr>"
          exampleDict focusedSelection "exampleState None" examplePasteContainer]
        OnPaste_data_source [of "\<lparr>type = ''paste'', isTrusted = True, clipboardData = Some ''D''\<rparr>"
          exampleDict focusedSelection "exampleState (Some ''V'')" examplePasteContainer]
  by (simp add: example_defs)

subsection \<open>The clipboard-change hook\<close>

text \<open>
  C10. \<^verbatim>\<open>OnClipboardChange\<close> overwrites the internal clipboard cell with the data of the
  event, whatever the cell held and changing nothing else, and a second invocation with
  the same data leaves the state of the first.
\<close>

theorem OnClipboardChange_overwrites_idempotent:
  "OnClipboardChange ev s = s\<lparr>heap := (heap s)\<lparr>Data := clipboardData ev\<rparr>\<rparr>
   \<and> Data (heap (OnClipboardChange ev s)) = clipboardData ev
   \<and> Data (heap (OnClipboardChange ev (OnClipboardChange ev s))) = clipboardData ev
   \<and> OnClipboardChange ev (OnClipboardChange ev s) = OnClipboardChange ev s"
  by (simp add: OnClipboardChange_def set_Data_def)

end
